theory Spec2Isabelle
  imports Main "HOL-Library.Word"
begin

section \<open>The game core of node 2 (src/node2/game.c)\<close>

text \<open>
  The module keeps its state in file-scope variables and talks to the rest of the
  node through driver calls. The model passes the variables around as a record and
  appends every driver call, in call order, to a log kept in the same record, so
  that both the values handed to the drivers and the order of the calls can be
  stated. Values the drivers return (the ADC sample, the accelerometer direction,
  the micro:bit button) are inputs of a tick.

  The target is a SAM3X (32-bit ARM): \<open>unsigned int\<close> and \<open>int\<close> are 32 bits wide
  and are modelled as \<open>32 word\<close>, \<open>uint16_t\<close> as \<open>16 word\<close>, \<open>char\<close> as \<open>8 word\<close>.
\<close>

subsection \<open>Types declared in headers\<close>

text \<open>
  The enumerations come from headers that are not part of the sources at hand. An
  object of a C enumeration type can hold integers other than the named
  constants, and the code has \<open>default\<close> branches for them; the last constructor
  of each datatype stands for such a value.
\<close>

datatype CONTROLLER_SEL =
    SLIDER_POS_CTRL
  | JOYSTICK_SPEED_CTRL
  | MICROBIT_SPEED_CTRL
  | CONTROLLER_OTHER int

datatype DIFFICULTY =
    HARD
  | EXTREME
  | IMPOSSIBLE
  | DIFFICULTY_OTHER int

datatype ACC_DIR =
    ACC_LEFT
  | ACC_RIGHT
  | ACC_OTHER int

text \<open>
  Modelled from the spec: the type \<open>CAN_MESSAGE\<close> is declared in
  \<open>can/can_controller.h\<close>, which is missing. The spec describes the record as a
  fixed identifier tag plus a 1-byte payload; \<open>data\<close> is that payload byte, the
  value the initialiser \<open>.data = lives_left\<close> leaves in the first data byte.
\<close>

record CAN_MESSAGE =
  id_tag :: "16 word"
  data_length :: "8 word"
  data :: "8 word"

text \<open>
  Constants and functions of the missing headers that the code uses, taken as
  parameters: \<open>SLIDER_MAX\<close>, \<open>GAME_LIVES_LEFT_ID\<close>, \<open>MOTOR_TIMER_FREQ\<close> and the four
  scaling functions of \<open>user_input_scaling.h\<close>.
\<close>

record platform =
  SLIDER_MAX :: "32 word"
  GAME_LIVES_LEFT_ID :: "16 word"
  MOTOR_TIMER_FREQ :: nat
  joystick_scale_x :: "8 word \<Rightarrow> 32 word"
  joystick_scale_y :: "8 word \<Rightarrow> 32 word"
  slider_scale_left :: "8 word \<Rightarrow> 32 word"
  slider_scale_right :: "8 word \<Rightarrow> 32 word"

subsection \<open>Constants of game.c\<close>

definition IR_TRESHOLD :: int where
  "IR_TRESHOLD = 1000"

definition NUMBER_OF_LIVES :: "32 word" where
  "NUMBER_OF_LIVES = 3"

definition K_P_HARD :: int where "K_P_HARD = 35"
definition K_I_HARD :: int where "K_I_HARD = 20"
definition K_D_HARD :: int where "K_D_HARD = 1"
definition K_P_EXTREME :: int where "K_P_EXTREME = 20"
definition K_I_EXTREME :: int where "K_I_EXTREME = 10"
definition K_D_EXTREME :: int where "K_D_EXTREME = 1"
definition K_P_IMPOSSIBLE :: int where "K_P_IMPOSSIBLE = 40"
definition K_I_IMPOSSIBLE :: int where "K_I_IMPOSSIBLE = 25"
definition K_D_IMPOSSIBLE :: int where "K_D_IMPOSSIBLE = 1"

definition MB_SPEED_HARD :: int where "MB_SPEED_HARD = 0x4FF"
definition MB_SPEED_EXTREME :: int where "MB_SPEED_EXTREME = 0x3FF"
definition MB_SPEED_IMPOSSIBLE :: int where "MB_SPEED_IMPOSSIBLE = 0x4FF"

definition MAX_MOTOR_SPEED :: int where "MAX_MOTOR_SPEED = 0x4FF"

text \<open>
  Modelled from the spec: \<open>INITIAL_LIVES\<close>, the value \<open>game_reset_lives_left\<close>
  stores, is a macro of the missing \<open>game.h\<close>. The spec calls it the configured
  initial life count, the one \<open>initialize()\<close> sets (3 in the spec's scenario).
\<close>

definition INITIAL_LIVES :: "32 word" where
  "INITIAL_LIVES = 3"

subsection \<open>Driver calls\<close>

text \<open>
  One constructor per driver function the module calls, with the arguments of the
  call; for the three reading functions the argument is the value returned.
  \<open>pid_controller_init\<close> receives the sample period \<open>T = 1.0 / MOTOR_TIMER_FREQ\<close>, a
  floating-point value: the log keeps the divisor. The register writes of
  \<open>game_timer_init\<close>, \<open>game_timer_enable\<close> and \<open>game_timer_disable\<close> are logged as
  one entry each.
\<close>

datatype ext_call =
    adc_init
  | servo_init
  | motor_init
  | solenoid_init
  | microbit_init
  | motor_set_microbit_speed int
  | pid_controller_init int int int nat int
  | pid_controller_set_parameters int int int
  | TC0_setup nat
  | TC0_clock_enable
  | TC0_clock_disable
  | adc_read "16 word"
  | microbit_dir ACC_DIR
  | microbit_button "32 word"
  | motor_run_slider "32 word"
  | motor_run_joystick "32 word"
  | motor_run_microbit ACC_DIR
  | servo_set_position "32 word"
  | solenoid_run_button "32 word"
  | can_send CAN_MESSAGE nat

subsection \<open>State\<close>

record user_input_data =
  joystick_x :: "32 word"
  joystick_y :: "32 word"
  slider_left :: "32 word"
  slider_right :: "32 word"
  button_left :: "32 word"
  button_right :: "32 word"

record game_state =
  score :: "32 word"
  lives_left :: "32 word"
  counting_flag :: "32 word"
  controller_select :: CONTROLLER_SEL
  difficulty_select :: DIFFICULTY
  user_data :: user_input_data
  calls :: "ext_call list"

text \<open>What the drivers return during one tick.\<close>

record tick_input =
  ir_sample :: "16 word"
  acc_direction :: ACC_DIR
  mb_button :: "32 word"

definition do_call :: "ext_call \<Rightarrow> game_state \<Rightarrow> game_state" where
  "do_call c s = s\<lparr>calls := calls s @ [c]\<rparr>"

text \<open>The variables as the C start-up code leaves them, with an empty log.\<close>

definition startup_state :: game_state where
  "startup_state =
     \<lparr>score = 0, lives_left = 0, counting_flag = 0,
      controller_select = SLIDER_POS_CTRL, difficulty_select = HARD,
      user_data = \<lparr>joystick_x = 0, joystick_y = 0, slider_left = 0,
                   slider_right = 0, button_left = 0, button_right = 0\<rparr>,
      calls = []\<rparr>"

subsection \<open>Operations\<close>

definition game_timer_init :: "platform \<Rightarrow> game_state \<Rightarrow> game_state" where
  "game_timer_init p s = do_call (TC0_setup (MOTOR_TIMER_FREQ p)) s"

definition game_init :: "platform \<Rightarrow> game_state \<Rightarrow> game_state" where
  "game_init p s =
     (let s = s\<lparr>score := 0\<rparr>;
          s = s\<lparr>lives_left := NUMBER_OF_LIVES\<rparr>;
          s = do_call adc_init s;
          s = do_call servo_init s;
          s = do_call motor_init s;
          s = do_call (motor_set_microbit_speed MB_SPEED_HARD) s;
          s = do_call solenoid_init s;
          s = do_call microbit_init s;
          s = do_call (pid_controller_init K_P_HARD K_I_HARD K_D_HARD
                         (MOTOR_TIMER_FREQ p) MAX_MOTOR_SPEED) s
      in game_timer_init p s)"

text \<open>
  The result is the function's \<open>int\<close> return value and the state. \<open>ir_level\<close> is an
  unsigned 16-bit value, promoted to \<open>int\<close> for the comparisons.
\<close>

definition game_count_fails :: "tick_input \<Rightarrow> game_state \<Rightarrow> int \<times> game_state" where
  "game_count_fails i s =
     (let ir_level = ir_sample i;
          s = do_call (adc_read ir_level) s
      in if uint ir_level < IR_TRESHOLD \<and> counting_flag s = 0
         then (1, s\<lparr>lives_left := lives_left s - 1, counting_flag := 1\<rparr>)
         else if uint ir_level > IR_TRESHOLD
         then (0, s\<lparr>counting_flag := 0\<rparr>)
         else (0, s))"

definition game_set_controller :: "CONTROLLER_SEL \<Rightarrow> game_state \<Rightarrow> game_state" where
  "game_set_controller controller s = s\<lparr>controller_select := controller\<rparr>"

definition game_set_difficulty :: "DIFFICULTY \<Rightarrow> game_state \<Rightarrow> game_state" where
  "game_set_difficulty difficulty s =
     (let s =
        (case difficulty of
           HARD \<Rightarrow>
             do_call (motor_set_microbit_speed MB_SPEED_HARD)
               (do_call (pid_controller_set_parameters K_P_HARD K_I_HARD K_D_HARD) s)
         | EXTREME \<Rightarrow>
             do_call (motor_set_microbit_speed MB_SPEED_EXTREME)
               (do_call (pid_controller_set_parameters K_P_EXTREME K_I_EXTREME K_D_EXTREME) s)
         | IMPOSSIBLE \<Rightarrow>
             do_call (motor_set_microbit_speed MB_SPEED_IMPOSSIBLE)
               (do_call (pid_controller_set_parameters
                           K_P_IMPOSSIBLE K_I_IMPOSSIBLE K_D_IMPOSSIBLE) s)
         | DIFFICULTY_OTHER _ \<Rightarrow> s)
      in s\<lparr>difficulty_select := difficulty\<rparr>)"

text \<open>
  \<open>game_set_user_data\<close> reads six bytes through its pointer; a shorter buffer is
  an out-of-bounds read, \<open>None\<close> here. Plain \<open>char\<close> is unsigned on the ARM EABI,
  so the two button bytes are zero-extended.
\<close>

definition game_set_user_data :: "platform \<Rightarrow> 8 word list \<Rightarrow> game_state \<Rightarrow> game_state option" where
  "game_set_user_data p bytes s =
     (if length bytes < 6 then None
      else Some (s\<lparr>user_data :=
             \<lparr>joystick_x = joystick_scale_x p (bytes ! 0),
              joystick_y = joystick_scale_y p (bytes ! 1),
              slider_left = slider_scale_left p (bytes ! 2),
              slider_right = slider_scale_right p (bytes ! 3),
              button_left = ucast (bytes ! 4),
              button_right = ucast (bytes ! 5)\<rparr>\<rparr>))"

text \<open>
  The \<open>switch\<close> of \<open>game_run\<close>. The \<open>MICROBIT_SPEED_CTRL\<close> case has no \<open>break\<close> and
  falls into \<open>default\<close>, which only breaks.
\<close>

definition game_run_switch :: "platform \<Rightarrow> tick_input \<Rightarrow> game_state \<Rightarrow> game_state" where
  "game_run_switch p i s =
     (case controller_select s of
        SLIDER_POS_CTRL \<Rightarrow>
          (let s = (if difficulty_select s = IMPOSSIBLE
                    then do_call (motor_run_slider (SLIDER_MAX p - slider_right (user_data s))) s
                    else do_call (motor_run_slider (slider_right (user_data s))) s);
               s = do_call (servo_set_position (joystick_x (user_data s))) s
           in do_call (solenoid_run_button (button_right (user_data s))) s)
      | JOYSTICK_SPEED_CTRL \<Rightarrow>
          (let s = (if difficulty_select s = IMPOSSIBLE
                    then do_call (motor_run_joystick (- joystick_x (user_data s))) s
                    else do_call (motor_run_joystick (joystick_x (user_data s))) s);
               s = do_call (servo_set_position (2 * (slider_right (user_data s) - 50))) s
           in do_call (solenoid_run_button (button_right (user_data s))) s)
      | MICROBIT_SPEED_CTRL \<Rightarrow>
          (let direction = acc_direction i;
               s = do_call (microbit_dir direction) s;
               direction =
                 (if difficulty_select s = IMPOSSIBLE
                  then (if direction = ACC_RIGHT then ACC_LEFT
                        else if direction = ACC_LEFT then ACC_RIGHT
                        else direction)
                  else direction);
               s = do_call (motor_run_microbit direction) s;
               s = do_call (servo_set_position (joystick_x (user_data s))) s;
               s = do_call (microbit_button (mb_button i)) s
           in do_call (solenoid_run_button (mb_button i)) s)
      | CONTROLLER_OTHER _ \<Rightarrow> s)"

definition game_run :: "platform \<Rightarrow> tick_input \<Rightarrow> game_state \<Rightarrow> game_state" where
  "game_run p i s =
     (let s = game_run_switch p i s;
          (failed, s) = game_count_fails i s;
          s = (if failed \<noteq> 0
               then do_call (can_send \<lparr>id_tag = GAME_LIVES_LEFT_ID p, data_length = 1,
                                        data = ucast (lives_left s)\<rparr> 0) s
               else s)
      in s\<lparr>score := score s + 1\<rparr>)"

definition game_timer_enable :: "game_state \<Rightarrow> game_state" where
  "game_timer_enable s = do_call TC0_clock_enable s"

definition game_timer_disable :: "game_state \<Rightarrow> game_state" where
  "game_timer_disable s = do_call TC0_clock_disable s"

definition game_get_score :: "game_state \<Rightarrow> 32 word" where
  "game_get_score s = score s"

definition game_reset_score :: "game_state \<Rightarrow> game_state" where
  "game_reset_score s = s\<lparr>score := 0\<rparr>"

definition game_reset_lives_left :: "game_state \<Rightarrow> game_state" where
  "game_reset_lives_left s = s\<lparr>lives_left := INITIAL_LIVES\<rparr>"

subsection \<open>Sequences of ticks\<close>

text \<open>The timer interrupt calls \<open>game_run\<close> once per period; ticks do not overlap.\<close>

fun game_ticks :: "platform \<Rightarrow> tick_input list \<Rightarrow> game_state \<Rightarrow> game_state" where
  "game_ticks p [] s = s"
| "game_ticks p (i # is) s = game_ticks p is (game_run p i s)"

text \<open>The number of ticks of a sequence on which \<open>lives_left\<close> changes.\<close>

fun lives_decrements :: "platform \<Rightarrow> tick_input list \<Rightarrow> game_state \<Rightarrow> nat" where
  "lives_decrements p [] s = 0"
| "lives_decrements p (i # is) s =
     (if lives_left (game_run p i s) = lives_left s then 0 else 1)
       + lives_decrements p is (game_run p i s)"

subsection \<open>Observations on the call log\<close>

text \<open>The calls one tick adds to the log, and the part of them made by the \<open>switch\<close>.\<close>

definition tick_calls :: "platform \<Rightarrow> tick_input \<Rightarrow> game_state \<Rightarrow> ext_call list" where
  "tick_calls p i s = drop (length (calls s)) (calls (game_run p i s))"

definition switch_calls :: "platform \<Rightarrow> tick_input \<Rightarrow> game_state \<Rightarrow> ext_call list" where
  "switch_calls p i s = drop (length (calls s)) (calls (game_run_switch p i s))"

text \<open>Calls that command the motor, the servo or the solenoid.\<close>

definition is_actuation :: "ext_call \<Rightarrow> bool" where
  "is_actuation c =
     (case c of
        motor_run_slider _ \<Rightarrow> True
      | motor_run_joystick _ \<Rightarrow> True
      | motor_run_microbit _ \<Rightarrow> True
      | servo_set_position _ \<Rightarrow> True
      | solenoid_run_button _ \<Rightarrow> True
      | _ \<Rightarrow> False)"

definition is_mb_read :: "ext_call \<Rightarrow> bool" where
  "is_mb_read c = (case c of microbit_dir _ \<Rightarrow> True | microbit_button _ \<Rightarrow> True | _ \<Rightarrow> False)"

definition is_adc_read :: "ext_call \<Rightarrow> bool" where
  "is_adc_read c = (case c of adc_read _ \<Rightarrow> True | _ \<Rightarrow> False)"

definition is_can_send :: "ext_call \<Rightarrow> bool" where
  "is_can_send c = (case c of can_send _ _ \<Rightarrow> True | _ \<Rightarrow> False)"

text \<open>
  A list of calls in which the sensor is read for the failure detection before
  any actuator is commanded.
\<close>

definition detection_first :: "ext_call list \<Rightarrow> bool" where
  "detection_first cs = (\<not> list_ex is_actuation (takeWhile (\<lambda>c. \<not> is_adc_read c) cs))"

subsection \<open>The sensor level against the threshold\<close>

definition below :: "tick_input \<Rightarrow> bool" where
  "below i \<longleftrightarrow> uint (ir_sample i) < IR_TRESHOLD"

definition above :: "tick_input \<Rightarrow> bool" where
  "above i \<longleftrightarrow> uint (ir_sample i) > IR_TRESHOLD"

text \<open>
  The condition of the first branch of \<open>game_count_fails\<close>: the level is below the
  threshold and the flag is clear (the detector is armed).
\<close>

definition qualifying_failure :: "tick_input \<Rightarrow> game_state \<Rightarrow> bool" where
  "qualifying_failure i s \<longleftrightarrow> uint (ir_sample i) < IR_TRESHOLD \<and> counting_flag s = 0"

text \<open>
  A tick above the threshold followed by a non-empty run of ticks below it.
\<close>

definition rearmed_run :: "tick_input list \<Rightarrow> bool" where
  "rearmed_run b =
     (case b of [] \<Rightarrow> False | a # run \<Rightarrow> above a \<and> run \<noteq> [] \<and> list_all below run)"

subsection \<open>Concrete inputs\<close>

definition bench_platform :: platform where
  "bench_platform =
     \<lparr>SLIDER_MAX = 100, GAME_LIVES_LEFT_ID = 3, MOTOR_TIMER_FREQ = 50,
      joystick_scale_x = ucast, joystick_scale_y = ucast,
      slider_scale_left = ucast, slider_scale_right = ucast\<rparr>"

definition sample :: "16 word \<Rightarrow> tick_input" where
  "sample l = \<lparr>ir_sample = l, acc_direction = ACC_OTHER 0, mb_button = 0\<rparr>"

definition tilt :: "ACC_DIR \<Rightarrow> tick_input" where
  "tilt d = \<lparr>ir_sample = 2000, acc_direction = d, mb_button = 1\<rparr>"

definition started :: game_state where
  "started = game_init bench_platform startup_state"

definition demo_input :: user_input_data where
  "demo_input = \<lparr>joystick_x = 10, joystick_y = 0, slider_left = 0,
                  slider_right = 80, button_left = 0, button_right = 1\<rparr>"

definition demo_state :: "CONTROLLER_SEL \<Rightarrow> DIFFICULTY \<Rightarrow> game_state" where
  "demo_state c d =
     started\<lparr>controller_select := c, difficulty_select := d, user_data := demo_input\<rparr>"

definition latched_state :: game_state where
  "latched_state = game_ticks bench_platform [sample 500] started"

section \<open>Auxiliary facts\<close>

subsection \<open>Frame and effect of the \<open>switch\<close>\<close>

lemma switch_frame:
  "score (game_run_switch p i s) = score s"
  "lives_left (game_run_switch p i s) = lives_left s"
  "counting_flag (game_run_switch p i s) = counting_flag s"
  "controller_select (game_run_switch p i s) = controller_select s"
  "difficulty_select (game_run_switch p i s) = difficulty_select s"
  "user_data (game_run_switch p i s) = user_data s"
  by (simp_all add: game_run_switch_def do_call_def Let_def split: CONTROLLER_SEL.split)

lemma switch_calls_prefix:
  "calls (game_run_switch p i s) = calls s @ switch_calls p i s"
  by (simp add: switch_calls_def game_run_switch_def do_call_def Let_def split: CONTROLLER_SEL.split)

lemma switch_calls_eq:
  "switch_calls p i s =
    (case controller_select s of
       SLIDER_POS_CTRL \<Rightarrow>
         [motor_run_slider (if difficulty_select s = IMPOSSIBLE
                            then SLIDER_MAX p - slider_right (user_data s)
                            else slider_right (user_data s)),
          servo_set_position (joystick_x (user_data s)),
          solenoid_run_button (button_right (user_data s))]
     | JOYSTICK_SPEED_CTRL \<Rightarrow>
         [motor_run_joystick (if difficulty_select s = IMPOSSIBLE
                              then - joystick_x (user_data s)
                              else joystick_x (user_data s)),
          servo_set_position (2 * (slider_right (user_data s) - 50)),
          solenoid_run_button (button_right (user_data s))]
     | MICROBIT_SPEED_CTRL \<Rightarrow>
         [microbit_dir (acc_direction i),
          motor_run_microbit
            (if difficulty_select s = IMPOSSIBLE
             then (case acc_direction i of ACC_LEFT \<Rightarrow> ACC_RIGHT | ACC_RIGHT \<Rightarrow> ACC_LEFT
                   | ACC_OTHER n \<Rightarrow> ACC_OTHER n)
             else acc_direction i),
          servo_set_position (joystick_x (user_data s)),
          microbit_button (mb_button i),
          solenoid_run_button (mb_button i)]
     | CONTROLLER_OTHER n \<Rightarrow> [])"
  by (simp add: switch_calls_def game_run_switch_def do_call_def Let_def
      split: CONTROLLER_SEL.split ACC_DIR.split)

subsection \<open>Effect of \<open>game_count_fails\<close>\<close>

lemma count_fails_fst:
  "fst (game_count_fails i s) = (if qualifying_failure i s then 1 else 0)"
  by (simp add: game_count_fails_def qualifying_failure_def do_call_def Let_def)

lemma count_fails_snd:
  "snd (game_count_fails i s) =
     (if qualifying_failure i s
      then s\<lparr>lives_left := lives_left s - 1, counting_flag := 1, calls := calls s @ [adc_read (ir_sample i)]\<rparr>
      else if uint (ir_sample i) > IR_TRESHOLD
      then s\<lparr>counting_flag := 0, calls := calls s @ [adc_read (ir_sample i)]\<rparr>
      else s\<lparr>calls := calls s @ [adc_read (ir_sample i)]\<rparr>)"
  by (simp add: game_count_fails_def qualifying_failure_def do_call_def Let_def)

subsection \<open>Effect of one tick\<close>

lemma game_run_unfold:
  "game_run p i s =
     (let t = snd (game_count_fails i (game_run_switch p i s));
          u = (if qualifying_failure i s
               then do_call (can_send \<lparr>id_tag = GAME_LIVES_LEFT_ID p, data_length = 1,
                                        data = ucast (lives_left t)\<rparr> 0) t
               else t)
      in u\<lparr>score := score u + 1\<rparr>)"
  by (simp add: game_run_def Let_def split_beta count_fails_fst qualifying_failure_def switch_frame)

lemma game_run_score: "score (game_run p i s) = score s + 1"
  by (simp add: game_run_unfold count_fails_snd Let_def do_call_def switch_frame qualifying_failure_def)

lemma game_run_lives:
  "lives_left (game_run p i s) = (if qualifying_failure i s then lives_left s - 1 else lives_left s)"
  by (simp add: game_run_unfold count_fails_snd Let_def do_call_def switch_frame qualifying_failure_def)

lemma game_run_flag:
  "counting_flag (game_run p i s) =
     (if qualifying_failure i s then 1
      else if uint (ir_sample i) > IR_TRESHOLD then 0 else counting_flag s)"
  by (simp add: game_run_unfold count_fails_snd Let_def do_call_def switch_frame qualifying_failure_def)

lemma game_run_frame:
  "controller_select (game_run p i s) = controller_select s"
  "difficulty_select (game_run p i s) = difficulty_select s"
  "user_data (game_run p i s) = user_data s"
  by (simp_all add: game_run_unfold count_fails_snd Let_def do_call_def switch_frame qualifying_failure_def)

lemma game_run_calls:
  "calls (game_run p i s) =
     calls s @ switch_calls p i s @ adc_read (ir_sample i) #
       (if qualifying_failure i s
        then [can_send \<lparr>id_tag = GAME_LIVES_LEFT_ID p, data_length = 1,
                        data = ucast (lives_left s - 1)\<rparr> 0]
        else [])"
  by (simp add: game_run_unfold count_fails_snd Let_def do_call_def switch_frame
      qualifying_failure_def switch_calls_prefix)

lemma tick_calls_eq:
  "tick_calls p i s =
     switch_calls p i s @ adc_read (ir_sample i) #
       (if qualifying_failure i s
        then [can_send \<lparr>id_tag = GAME_LIVES_LEFT_ID p, data_length = 1,
                        data = ucast (lives_left s - 1)\<rparr> 0]
        else [])"
  by (simp add: tick_calls_def game_run_calls)

lemma actuation_calls:
  "filter is_actuation (tick_calls p i s) = filter is_actuation (switch_calls p i s)"
  by (simp add: tick_calls_eq is_actuation_def)

lemma game_init_sel:
  "counting_flag (game_init p s) = counting_flag s"
  "lives_left (game_init p s) = NUMBER_OF_LIVES"
  "score (game_init p s) = 0"
  "controller_select (game_init p s) = controller_select s"
  "difficulty_select (game_init p s) = difficulty_select s"
  "user_data (game_init p s) = user_data s"
  by (simp_all add: game_init_def game_timer_init_def do_call_def Let_def)

subsection \<open>Sequences of ticks\<close>

lemma game_ticks_append:
  "game_ticks p (xs @ ys) s = game_ticks p ys (game_ticks p xs s)"
  by (induction xs arbitrary: s) simp_all

lemma lives_decrements_append:
  "lives_decrements p (xs @ ys) s = lives_decrements p xs s + lives_decrements p ys (game_ticks p xs s)"
  by (induction xs arbitrary: s) simp_all

lemma game_ticks_score: "score (game_ticks p ins s) = score s + of_nat (length ins)"
  by (induction ins arbitrary: s) (simp_all add: game_run_score)

lemma below_not_above: "below i \<Longrightarrow> \<not> above i"
  by (simp add: below_def above_def)

lemma list_all_below_not_above: "list_all below ins \<Longrightarrow> list_all (\<lambda>i. \<not> above i) ins"
  by (induction ins) (simp_all add: below_not_above)

lemma latched_stays:
  "list_all (\<lambda>i. \<not> above i) ins \<Longrightarrow> counting_flag s \<noteq> 0 \<Longrightarrow>
     lives_decrements p ins s = 0 \<and> lives_left (game_ticks p ins s) = lives_left s
       \<and> counting_flag (game_ticks p ins s) = counting_flag s"
proof (induction ins arbitrary: s)
  case Nil
  then show ?case by simp
next
  case (Cons i ins)
  have nq: "\<not> qualifying_failure i s"
    using Cons.prems(2) by (simp add: qualifying_failure_def)
  have fl: "counting_flag (game_run p i s) = counting_flag s"
    using Cons.prems nq by (simp add: game_run_flag above_def)
  have lv: "lives_left (game_run p i s) = lives_left s"
    using nq by (simp add: game_run_lives)
  have "list_all (\<lambda>i. \<not> above i) ins"
    using Cons.prems(1) by simp
  from Cons.IH [OF this, of "game_run p i s"] fl lv Cons.prems(2)
  show ?case by simp
qed

lemma armed_run:
  assumes "ins \<noteq> []" "list_all below ins" "counting_flag s = 0"
  shows "lives_decrements p ins s = 1 \<and> lives_left (game_ticks p ins s) = lives_left s - 1
           \<and> counting_flag (game_ticks p ins s) = 1"
proof -
  from assms(1) obtain i rest where ins: "ins = i # rest"
    by (cases ins) auto
  have q: "qualifying_failure i s"
    using assms(2,3) by (simp add: ins qualifying_failure_def below_def)
  have fl: "counting_flag (game_run p i s) = 1"
    using q by (simp add: game_run_flag)
  have lv: "lives_left (game_run p i s) = lives_left s - 1"
    using q by (simp add: game_run_lives)
  have "list_all (\<lambda>i. \<not> above i) rest"
    using assms(2) by (simp add: ins list_all_below_not_above)
  from latched_stays [OF this, of "game_run p i s" p] fl lv
  show ?thesis by (simp add: ins)
qed

lemma rearmed_run_once:
  assumes "rearmed_run b"
  shows "lives_decrements p b s = 1 \<and> lives_left (game_ticks p b s) = lives_left s - 1"
proof -
  from assms obtain a run where b: "b = a # run" and a: "above a"
    and run: "run \<noteq> []" "list_all below run"
    by (auto simp: rearmed_run_def split: list.splits)
  have nq: "\<not> qualifying_failure a s"
    using a by (simp add: qualifying_failure_def above_def)
  have fl: "counting_flag (game_run p a s) = 0"
    using a nq by (simp add: game_run_flag above_def)
  have lv: "lives_left (game_run p a s) = lives_left s"
    using nq by (simp add: game_run_lives)
  from armed_run [OF run fl, of p] lv show ?thesis
    by (simp add: b)
qed

lemma rearmed_runs_count:
  "list_all rearmed_run bs \<Longrightarrow>
     lives_decrements p (concat bs) s = length bs
       \<and> lives_left (game_ticks p (concat bs) s) = lives_left s - of_nat (length bs)"
proof (induction bs arbitrary: s)
  case Nil
  then show ?case by simp
next
  case (Cons b bs)
  then have b: "rearmed_run b" and bs: "list_all rearmed_run bs"
    by simp_all
  note one = rearmed_run_once [OF b, of p s]
  note rest = Cons.IH [OF bs, of "game_ticks p b s"]
  show ?case
    using one rest by (simp add: lives_decrements_append game_ticks_append)
qed

subsection \<open>Truncation to the payload byte\<close>

lemma ucast_all_ones: "(ucast (0xFFFFFFFF :: 32 word) :: 8 word) = 0xFF"
  by simp

lemma ucast_minus_one: "(ucast (- 1 :: 32 word) :: 8 word) = 0xFF"
proof -
  have "(- 1 :: 32 word) = 0xFFFFFFFF"
    by simp
  then show ?thesis
    by (simp only: ucast_all_ones)
qed

subsection \<open>Evaluation of the concrete inputs\<close>

lemma sample_sel:
  "ir_sample (sample l) = l" "acc_direction (sample l) = ACC_OTHER 0" "mb_button (sample l) = 0"
  by (simp_all add: sample_def)

lemma sample_simps:
  "below (sample 500)" "\<not> below (sample 1000)" "\<not> above (sample 1000)" "above (sample 2000)"
  "\<not> above (sample 500)" "\<not> below (sample 2000)"
  by (simp_all add: below_def above_def sample_def IR_TRESHOLD_def)

lemma tilt_sel:
  "ir_sample (tilt d) = 2000" "acc_direction (tilt d) = d" "mb_button (tilt d) = 1"
  by (simp_all add: tilt_def)

lemma bench_platform_sel:
  "SLIDER_MAX bench_platform = 100" "GAME_LIVES_LEFT_ID bench_platform = 3"
  "MOTOR_TIMER_FREQ bench_platform = 50"
  by (simp_all add: bench_platform_def)

lemma started_eval:
  "lives_left started = 3" "counting_flag started = 0" "score started = 0"
  by (simp_all add: started_def game_init_def game_timer_init_def do_call_def startup_state_def
      NUMBER_OF_LIVES_def Let_def)

lemma started_frame:
  "controller_select started = SLIDER_POS_CTRL" "difficulty_select started = HARD"
  by (simp_all add: started_def game_init_def game_timer_init_def do_call_def startup_state_def
      Let_def)

lemma demo_input_sel:
  "joystick_x demo_input = 10" "slider_right demo_input = 80" "button_right demo_input = 1"
  by (simp_all add: demo_input_def)

lemma demo_state_sel:
  "lives_left (demo_state c d) = 3" "counting_flag (demo_state c d) = 0"
  "score (demo_state c d) = 0"
  "controller_select (demo_state c d) = c"
  "difficulty_select (demo_state c d) = d"
  "user_data (demo_state c d) = demo_input"
  by (simp_all add: demo_state_def started_eval)

lemma latched_state_sel:
  "counting_flag latched_state = 1" "lives_left latched_state = 2"
  by (simp_all add: latched_state_def game_run_flag game_run_lives qualifying_failure_def
      sample_sel started_eval IR_TRESHOLD_def)

section \<open>Properties\<close>

subsection \<open>Failure detection and debounce\<close>

text \<open>
  C1, as stated: over every non-empty run of consecutive ticks with the sensor
  level below the threshold, \<open>lives_left\<close> is decremented exactly once. This fails
  for a run that begins while the flag is still set. After the start-up
  initialisation, the levels 500, 1000, 500 form two runs below the threshold,
  separated by a tick at exactly the threshold, which does not clear the flag:
  the second run decrements nothing, and of the three ticks only the first
  costs a life.
\<close>

theorem second_run_after_threshold_level_counterexample:
  "list_all below [sample 500] \<and> \<not> below (sample 1000)
     \<and> lives_decrements bench_platform [sample 500]
         (game_ticks bench_platform [sample 500, sample 1000] started) = 0
     \<and> lives_decrements bench_platform [sample 500, sample 1000, sample 500] started = 1
     \<and> lives_left (game_ticks bench_platform [sample 500, sample 1000, sample 500] started) = 2"
  by (simp add: started_eval game_run_lives game_run_flag qualifying_failure_def
      below_def sample_def IR_TRESHOLD_def)

text \<open>
  C1, amended: over a non-empty run of consecutive ticks with the level below
  the threshold, \<open>lives_left\<close> is decremented exactly once when the flag is clear
  at the beginning of the run and not at all when it is set, so never more than
  once. A tick with the level strictly above the threshold costs no life and
  clears the flag, and the run below the threshold that follows it costs
  exactly one life. No tick whose level is not below the threshold changes
  \<open>lives_left\<close>, and a tick exactly at the threshold leaves the flag as it is. A
  sequence made of \<open>n\<close> runs below the threshold, each preceded by a tick above
  it, costs exactly \<open>n\<close> lives.
\<close>

theorem one_decrement_per_armed_run:
  assumes "ins \<noteq> []" and "list_all below ins"
  shows "lives_decrements p ins s = (if counting_flag s = 0 then 1 else 0)
       \<and> lives_left (game_ticks p ins s) = (if counting_flag s = 0 then lives_left s - 1 else lives_left s)
       \<and> lives_decrements p ins s \<le> 1
       \<and> (above a \<longrightarrow>
            lives_left (game_run p a s) = lives_left s
            \<and> counting_flag (game_run p a s) = 0
            \<and> lives_decrements p ins (game_run p a s) = 1
            \<and> lives_left (game_ticks p ins (game_run p a s)) = lives_left s - 1
            \<and> lives_decrements p (a # ins) s = 1)
       \<and> (\<not> below t \<longrightarrow> lives_left (game_run p t u) = lives_left u)
       \<and> (\<not> below t \<and> \<not> above t \<longrightarrow> counting_flag (game_run p t u) = counting_flag u)
       \<and> (list_all rearmed_run bs \<longrightarrow>
            lives_decrements p (concat bs) s = length bs
            \<and> lives_left (game_ticks p (concat bs) s) = lives_left s - of_nat (length bs))"
proof -
  have na: "list_all (\<lambda>i. \<not> above i) ins"
    using assms(2) by (rule list_all_below_not_above)
  have first: "lives_decrements p ins s = (if counting_flag s = 0 then 1 else 0)
       \<and> lives_left (game_ticks p ins s) = (if counting_flag s = 0 then lives_left s - 1 else lives_left s)"
  proof (cases "counting_flag s = 0")
    case True
    from armed_run [OF assms True, of p] True show ?thesis by simp
  next
    case False
    from latched_stays [OF na False, of p] False show ?thesis by simp
  qed
  have le: "lives_decrements p ins s \<le> 1"
    using first by simp
  have after: "lives_left (game_run p a s) = lives_left s
            \<and> counting_flag (game_run p a s) = 0
            \<and> lives_decrements p ins (game_run p a s) = 1
            \<and> lives_left (game_ticks p ins (game_run p a s)) = lives_left s - 1
            \<and> lives_decrements p (a # ins) s = 1" if "above a"
  proof -
    have nq: "\<not> qualifying_failure a s"
      using that by (simp add: qualifying_failure_def above_def)
    have lv: "lives_left (game_run p a s) = lives_left s"
      using nq by (simp add: game_run_lives)
    have fl: "counting_flag (game_run p a s) = 0"
      using that nq by (simp add: game_run_flag above_def)
    note run = armed_run [OF assms fl, of p]
    have blk: "lives_decrements p (a # ins) s = 1"
      using run lv by simp
    from lv fl run blk show ?thesis
      by simp
  qed
  have quiet: "lives_left (game_run p t u) = lives_left u" if "\<not> below t"
    using that by (simp add: game_run_lives qualifying_failure_def below_def)
  have hold: "counting_flag (game_run p t u) = counting_flag u" if "\<not> below t \<and> \<not> above t"
    using that by (simp add: game_run_flag qualifying_failure_def below_def above_def)
  have runs: "lives_decrements p (concat bs) s = length bs
            \<and> lives_left (game_ticks p (concat bs) s) = lives_left s - of_nat (length bs)"
    if "list_all rearmed_run bs"
    using rearmed_runs_count [OF that, of p s] by simp
  from first le after quiet hold runs show ?thesis
    by blast
qed

theorem one_decrement_per_armed_run_witness:
  "[sample 500, sample 600] \<noteq> [] \<and> list_all below [sample 500, sample 600]
     \<and> above (sample 2000)
     \<and> \<not> below (sample 1000) \<and> \<not> above (sample 1000)
     \<and> list_all rearmed_run [[sample 2000, sample 500], [sample 1500, sample 400, sample 300]]
     \<and> lives_decrements bench_platform [sample 500, sample 600] started = 1
     \<and> lives_left (game_ticks bench_platform [sample 500, sample 600] started) = 2
     \<and> lives_left (game_run bench_platform (sample 2000) latched_state) = 2
     \<and> counting_flag (game_run bench_platform (sample 2000) latched_state) = 0
     \<and> lives_decrements bench_platform [sample 500, sample 600]
          (game_run bench_platform (sample 2000) latched_state) = 1
     \<and> lives_left (game_ticks bench_platform [sample 500, sample 600]
          (game_run bench_platform (sample 2000) latched_state)) = 1
     \<and> lives_left (game_run bench_platform (sample 1000) latched_state) = 2
     \<and> counting_flag (game_run bench_platform (sample 1000) latched_state) = 1
     \<and> lives_decrements bench_platform
          (concat [[sample 2000, sample 500], [sample 1500, sample 400, sample 300]]) started = 2
     \<and> lives_left (game_ticks bench_platform
          (concat [[sample 2000, sample 500], [sample 1500, sample 400, sample 300]]) started) = 1"
proof -
  let ?ins = "[sample 500, sample 600]"
  let ?bs = "[[sample 2000, sample 500], [sample 1500, sample 400, sample 300]]"
  have h1: "?ins \<noteq> []"
    by simp
  have h2: "list_all below ?ins"
    by (simp add: below_def sample_sel IR_TRESHOLD_def)
  have h3: "above (sample 2000)"
    by (simp add: above_def sample_sel IR_TRESHOLD_def)
  have h4: "\<not> below (sample 1000)" "\<not> above (sample 1000)"
    by (simp_all add: sample_simps)
  have h5: "list_all rearmed_run ?bs"
    by (simp add: rearmed_run_def below_def above_def sample_sel IR_TRESHOLD_def)
  note armed = one_decrement_per_armed_run [OF h1 h2, of bench_platform started "sample 2000"
      "sample 1000" latched_state ?bs]
  note latched = one_decrement_per_armed_run [OF h1 h2, of bench_platform latched_state "sample 2000"
      "sample 1000" latched_state ?bs]
  have r: "lives_decrements bench_platform ?ins started = (if counting_flag started = 0 then 1 else 0)"
    and l: "lives_left (game_ticks bench_platform ?ins started)
             = (if counting_flag started = 0 then lives_left started - 1 else lives_left started)"
    and c: "lives_decrements bench_platform (concat ?bs) started = length ?bs"
    and d: "lives_left (game_ticks bench_platform (concat ?bs) started)
             = lives_left started - of_nat (length ?bs)"
    using armed h5 by blast+
  have a1: "lives_left (game_run bench_platform (sample 2000) latched_state) = lives_left latched_state"
    and a2: "counting_flag (game_run bench_platform (sample 2000) latched_state) = 0"
    and a3: "lives_decrements bench_platform ?ins
               (game_run bench_platform (sample 2000) latched_state) = 1"
    and a4: "lives_left (game_ticks bench_platform ?ins
               (game_run bench_platform (sample 2000) latched_state)) = lives_left latched_state - 1"
    and q1: "lives_left (game_run bench_platform (sample 1000) latched_state) = lives_left latched_state"
    and q2: "counting_flag (game_run bench_platform (sample 1000) latched_state)
               = counting_flag latched_state"
    using latched h3 h4 by blast+
  have r': "lives_decrements bench_platform ?ins started = 1"
    by (simp only: r started_eval) simp
  have l': "lives_left (game_ticks bench_platform ?ins started) = 2"
    by (simp only: l started_eval) simp
  have c': "lives_decrements bench_platform (concat ?bs) started = 2"
    by (simp only: c) simp
  have d': "lives_left (game_ticks bench_platform (concat ?bs) started) = 1"
    by (simp only: d started_eval) simp
  have a1': "lives_left (game_run bench_platform (sample 2000) latched_state) = 2"
    by (simp only: a1 latched_state_sel)
  have a4': "lives_left (game_ticks bench_platform ?ins
               (game_run bench_platform (sample 2000) latched_state)) = 1"
    by (simp only: a4 latched_state_sel) simp
  have q1': "lives_left (game_run bench_platform (sample 1000) latched_state) = 2"
    by (simp only: q1 latched_state_sel)
  have q2': "counting_flag (game_run bench_platform (sample 1000) latched_state) = 1"
    by (simp only: q2 latched_state_sel)
  from h1 h2 h3 h4 h5 r' l' a1' a2 a3 a4' q1' q2' c' d' show ?thesis
    by blast
qed

text \<open>
  C5: the comparisons with the threshold are strict in both directions. The
  function reports a failure, and changes \<open>lives_left\<close>, only for a level strictly
  below the threshold (and does so when the flag is clear); a set flag is
  cleared only by a level strictly above the threshold, and every such level
  clears it; a level equal to the threshold reports no failure and leaves the
  state as it was, apart from the logged sensor read.
\<close>

theorem threshold_comparison_strict:
  "(fst (game_count_fails i s) \<noteq> 0 \<longrightarrow> uint (ir_sample i) < IR_TRESHOLD)
   \<and> (lives_left (snd (game_count_fails i s)) \<noteq> lives_left s \<longrightarrow> uint (ir_sample i) < IR_TRESHOLD)
   \<and> (uint (ir_sample i) < IR_TRESHOLD \<and> counting_flag s = 0 \<longrightarrow>
        fst (game_count_fails i s) = 1
        \<and> lives_left (snd (game_count_fails i s)) = lives_left s - 1
        \<and> counting_flag (snd (game_count_fails i s)) = 1)
   \<and> (counting_flag s \<noteq> 0 \<and> counting_flag (snd (game_count_fails i s)) = 0 \<longrightarrow>
        uint (ir_sample i) > IR_TRESHOLD)
   \<and> (uint (ir_sample i) > IR_TRESHOLD \<longrightarrow>
        fst (game_count_fails i s) = 0 \<and> counting_flag (snd (game_count_fails i s)) = 0)
   \<and> (uint (ir_sample i) = IR_TRESHOLD \<longrightarrow>
        fst (game_count_fails i s) = 0
        \<and> snd (game_count_fails i s) = do_call (adc_read (ir_sample i)) s
        \<and> counting_flag (snd (game_count_fails i s)) = counting_flag s
        \<and> lives_left (snd (game_count_fails i s)) = lives_left s)"
  by (simp add: count_fails_fst count_fails_snd qualifying_failure_def do_call_def)

theorem threshold_comparison_strict_witness:
  "fst (game_count_fails (sample 999) started) = 1
   \<and> lives_left (snd (game_count_fails (sample 999) started)) = 2
   \<and> fst (game_count_fails (sample 1000) started) = 0
   \<and> lives_left (snd (game_count_fails (sample 1000) started)) = 3
   \<and> counting_flag (snd (game_count_fails (sample 1000) (started\<lparr>counting_flag := 1\<rparr>))) = 1
   \<and> counting_flag (snd (game_count_fails (sample 1001) (started\<lparr>counting_flag := 1\<rparr>))) = 0"
  using threshold_comparison_strict [of "sample 999" started]
    threshold_comparison_strict [of "sample 1000" started]
    threshold_comparison_strict [of "sample 1000" "started\<lparr>counting_flag := 1\<rparr>"]
    threshold_comparison_strict [of "sample 1001" "started\<lparr>counting_flag := 1\<rparr>"]
  by (simp add: sample_sel started_eval IR_TRESHOLD_def do_call_def)

subsection \<open>The tick handler\<close>

text \<open>
  C2: every call of \<open>game_run\<close> adds 1 to \<open>score\<close>, in 32-bit unsigned arithmetic
  (so by exactly 1 as a number unless the counter holds its largest value),
  whatever the sensor level, the flag, the difficulty and the controller
  selection are; \<open>n\<close> ticks add \<open>n\<close>. When the stored controller selection is
  none of the three named values, the tick commands no actuator: it reads the
  sensor, updates \<open>lives_left\<close> and the flag as \<open>game_count_fails\<close> does, sends
  the message after a failure, and increments the score.
\<close>

theorem score_increments_every_tick:
  "score (game_run p i s) = score s + 1
   \<and> score (game_ticks p ins s) = score s + of_nat (length ins)
   \<and> (score s \<noteq> - 1 \<longrightarrow> unat (score (game_run p i s)) = unat (score s) + 1)
   \<and> (controller_select s = CONTROLLER_OTHER n \<longrightarrow>
        filter is_actuation (tick_calls p i s) = []
        \<and> tick_calls p i s =
            adc_read (ir_sample i) #
              (if qualifying_failure i s
               then [can_send \<lparr>id_tag = GAME_LIVES_LEFT_ID p, data_length = 1,
                               data = ucast (lives_left s - 1)\<rparr> 0]
               else [])
        \<and> lives_left (game_run p i s) = lives_left (snd (game_count_fails i s))
        \<and> counting_flag (game_run p i s) = counting_flag (snd (game_count_fails i s)))"
proof -
  have u: "unat (score (game_run p i s)) = unat (score s) + 1" if "score s \<noteq> - 1"
  proof -
    have "1 + score s \<noteq> 0"
      using that by (metis add.commute add_eq_0_iff)
    from unatSuc [OF this] show ?thesis
      by (simp add: game_run_score add.commute)
  qed
  have o: "filter is_actuation (tick_calls p i s) = []
        \<and> tick_calls p i s =
            adc_read (ir_sample i) #
              (if qualifying_failure i s
               then [can_send \<lparr>id_tag = GAME_LIVES_LEFT_ID p, data_length = 1,
                               data = ucast (lives_left s - 1)\<rparr> 0]
               else [])
        \<and> lives_left (game_run p i s) = lives_left (snd (game_count_fails i s))
        \<and> counting_flag (game_run p i s) = counting_flag (snd (game_count_fails i s))"
    if "controller_select s = CONTROLLER_OTHER n"
    using that
    by (simp add: tick_calls_eq switch_calls_eq is_actuation_def game_run_lives game_run_flag
        count_fails_snd)
  have a: "score (game_run p i s) = score s + 1"
    by (rule game_run_score)
  have b: "score (game_ticks p ins s) = score s + of_nat (length ins)"
    by (rule game_ticks_score)
  from a b u o show ?thesis
    by blast
qed

theorem score_increments_every_tick_witness:
  "controller_select (demo_state (CONTROLLER_OTHER 7) HARD) = CONTROLLER_OTHER 7
   \<and> score (demo_state (CONTROLLER_OTHER 7) HARD) \<noteq> - 1
   \<and> unat (score (game_run bench_platform (sample 500)
                      (demo_state (CONTROLLER_OTHER 7) HARD))) = 1
   \<and> tick_calls bench_platform (sample 500) (demo_state (CONTROLLER_OTHER 7) HARD)
       = [adc_read 500, can_send \<lparr>id_tag = 3, data_length = 1, data = 2\<rparr> 0]"
proof -
  let ?s = "demo_state (CONTROLLER_OTHER 7) HARD"
  have h1: "controller_select ?s = CONTROLLER_OTHER 7"
    by (simp add: demo_state_sel)
  have h2: "score ?s \<noteq> - 1"
    by (simp add: demo_state_sel)
  have q: "qualifying_failure (sample 500) ?s"
    by (simp add: qualifying_failure_def sample_sel IR_TRESHOLD_def demo_state_sel)
  from score_increments_every_tick [of bench_platform "sample 500" ?s "[]" 7] h1 h2 q
  show ?thesis
    by (simp add: demo_state_sel sample_sel bench_platform_sel)
qed

text \<open>
  C3, as stated: the failure detection is evaluated first, before the actuation
  is dispatched. In the code the \<open>switch\<close> comes first: in slider mode the motor,
  the servo and the solenoid are commanded before the sensor is read.
\<close>

theorem detection_after_actuation_counterexample:
  "\<not> detection_first (tick_calls bench_platform (sample 500) (demo_state SLIDER_POS_CTRL HARD))"
  by (simp add: detection_first_def tick_calls_eq switch_calls_eq demo_state_sel demo_input_sel
      is_actuation_def is_adc_read_def)

text \<open>
  C3, amended: the calls of a tick are, in this order, the calls of the \<open>switch\<close>
  for the stored controller selection (actuator commands and, in micro:bit
  mode, the reads of the micro:bit), then the sensor read of the failure
  detection, then, when a failure was detected, one message whose payload is the
  updated \<open>lives_left\<close>. The outcome of the detection does not depend on what the
  \<open>switch\<close> did. The score is untouched by the \<open>switch\<close> and by the detection and
  is one higher at the end of the tick.
\<close>

theorem tick_order:
  "tick_calls p i s =
     switch_calls p i s @ [adc_read (ir_sample i)] @
       (if fst (game_count_fails i (game_run_switch p i s)) \<noteq> 0
        then [can_send \<lparr>id_tag = GAME_LIVES_LEFT_ID p, data_length = 1,
                        data = ucast (lives_left (game_run p i s))\<rparr> 0]
        else [])
   \<and> list_all (\<lambda>c. is_actuation c \<or> is_mb_read c) (switch_calls p i s)
   \<and> fst (game_count_fails i (game_run_switch p i s)) = fst (game_count_fails i s)
   \<and> score (game_run_switch p i s) = score s
   \<and> score (snd (game_count_fails i (game_run_switch p i s))) = score s
   \<and> score (game_run p i s) = score s + 1"
proof -
  have 1: "tick_calls p i s =
     switch_calls p i s @ [adc_read (ir_sample i)] @
       (if fst (game_count_fails i (game_run_switch p i s)) \<noteq> 0
        then [can_send \<lparr>id_tag = GAME_LIVES_LEFT_ID p, data_length = 1,
                        data = ucast (lives_left (game_run p i s))\<rparr> 0]
        else [])"
    by (simp add: tick_calls_eq count_fails_fst qualifying_failure_def switch_frame game_run_lives)
  have 2: "list_all (\<lambda>c. is_actuation c \<or> is_mb_read c) (switch_calls p i s)"
    by (simp add: switch_calls_eq is_actuation_def is_mb_read_def split: CONTROLLER_SEL.split)
  have 3: "fst (game_count_fails i (game_run_switch p i s)) = fst (game_count_fails i s)"
    by (simp add: count_fails_fst qualifying_failure_def switch_frame)
  have 4: "score (game_run_switch p i s) = score s"
    by (simp add: switch_frame)
  have 5: "score (snd (game_count_fails i (game_run_switch p i s))) = score s"
    by (simp add: count_fails_snd switch_frame)
  have 6: "score (game_run p i s) = score s + 1"
    by (rule game_run_score)
  from 1 2 3 4 5 6 show ?thesis
    by blast
qed

theorem tick_order_witness:
  "tick_calls bench_platform (sample 500) (demo_state SLIDER_POS_CTRL HARD) =
     [motor_run_slider 80, servo_set_position 10, solenoid_run_button 1, adc_read 500,
      can_send \<lparr>id_tag = 3, data_length = 1, data = 2\<rparr> 0]"
proof -
  let ?s = "demo_state SLIDER_POS_CTRL HARD"
  let ?i = "sample 500"
  have q: "fst (game_count_fails ?i (game_run_switch bench_platform ?i ?s)) = 1"
    by (simp add: count_fails_fst qualifying_failure_def switch_frame sample_sel IR_TRESHOLD_def
        demo_state_sel)
  have l: "lives_left (game_run bench_platform ?i ?s) = 2"
    by (simp add: game_run_lives qualifying_failure_def sample_sel IR_TRESHOLD_def
        demo_state_sel)
  have sw: "switch_calls bench_platform ?i ?s =
      [motor_run_slider 80, servo_set_position 10, solenoid_run_button 1]"
    by (simp add: switch_calls_eq demo_state_sel demo_input_sel)
  from tick_order [of bench_platform ?i ?s]
  have "tick_calls bench_platform ?i ?s =
     switch_calls bench_platform ?i ?s @ [adc_read (ir_sample ?i)] @
       (if fst (game_count_fails ?i (game_run_switch bench_platform ?i ?s)) \<noteq> 0
        then [can_send \<lparr>id_tag = GAME_LIVES_LEFT_ID bench_platform, data_length = 1,
                        data = ucast (lives_left (game_run bench_platform ?i ?s))\<rparr> 0]
        else [])"
    by blast
  then show ?thesis
    by (simp add: q l sw sample_sel bench_platform_sel)
qed

text \<open>
  C4: with difficulty \<open>IMPOSSIBLE\<close>, and with no other difficulty, the control is
  inverted in each of the three modes. In slider mode the motor target is
  \<open>SLIDER_MAX - slider_right\<close>, otherwise \<open>slider_right\<close>; in joystick mode the
  motor speed is \<open>- joystick_x\<close>, otherwise \<open>joystick_x\<close>; in micro:bit mode a
  sensed \<open>ACC_LEFT\<close> becomes \<open>ACC_RIGHT\<close> and \<open>ACC_RIGHT\<close> becomes \<open>ACC_LEFT\<close>, any
  other direction is passed on as it is, and with another difficulty every
  direction is passed on as it is. The arithmetic is that of 32-bit integers.
\<close>

theorem impossible_inverts_control:
  "(controller_select s = SLIDER_POS_CTRL \<longrightarrow>
      filter is_actuation (tick_calls p i s) =
        [motor_run_slider (if difficulty_select s = IMPOSSIBLE
                           then SLIDER_MAX p - slider_right (user_data s)
                           else slider_right (user_data s)),
         servo_set_position (joystick_x (user_data s)),
         solenoid_run_button (button_right (user_data s))])
   \<and> (controller_select s = JOYSTICK_SPEED_CTRL \<longrightarrow>
      filter is_actuation (tick_calls p i s) =
        [motor_run_joystick (if difficulty_select s = IMPOSSIBLE
                             then - joystick_x (user_data s)
                             else joystick_x (user_data s)),
         servo_set_position (2 * (slider_right (user_data s) - 50)),
         solenoid_run_button (button_right (user_data s))])
   \<and> (controller_select s = MICROBIT_SPEED_CTRL \<and> difficulty_select s = IMPOSSIBLE \<longrightarrow>
      filter is_actuation (tick_calls p i s) =
        [motor_run_microbit (case acc_direction i of
                               ACC_LEFT \<Rightarrow> ACC_RIGHT
                             | ACC_RIGHT \<Rightarrow> ACC_LEFT
                             | ACC_OTHER n \<Rightarrow> ACC_OTHER n),
         servo_set_position (joystick_x (user_data s)),
         solenoid_run_button (mb_button i)])
   \<and> (controller_select s = MICROBIT_SPEED_CTRL \<and> difficulty_select s \<noteq> IMPOSSIBLE \<longrightarrow>
      filter is_actuation (tick_calls p i s) =
        [motor_run_microbit (acc_direction i),
         servo_set_position (joystick_x (user_data s)),
         solenoid_run_button (mb_button i)])"
  by (simp add: actuation_calls switch_calls_eq is_actuation_def)

theorem impossible_inverts_control_witness:
  "filter is_actuation (tick_calls bench_platform (tilt ACC_LEFT) (demo_state SLIDER_POS_CTRL IMPOSSIBLE))
     = [motor_run_slider 20, servo_set_position 10, solenoid_run_button 1]
   \<and> filter is_actuation (tick_calls bench_platform (tilt ACC_LEFT) (demo_state SLIDER_POS_CTRL EXTREME))
     = [motor_run_slider 80, servo_set_position 10, solenoid_run_button 1]
   \<and> filter is_actuation (tick_calls bench_platform (tilt ACC_LEFT) (demo_state JOYSTICK_SPEED_CTRL IMPOSSIBLE))
     = [motor_run_joystick (- 10), servo_set_position 60, solenoid_run_button 1]
   \<and> filter is_actuation (tick_calls bench_platform (tilt ACC_LEFT) (demo_state JOYSTICK_SPEED_CTRL HARD))
     = [motor_run_joystick 10, servo_set_position 60, solenoid_run_button 1]
   \<and> filter is_actuation (tick_calls bench_platform (tilt ACC_LEFT) (demo_state MICROBIT_SPEED_CTRL IMPOSSIBLE))
     = [motor_run_microbit ACC_RIGHT, servo_set_position 10, solenoid_run_button 1]
   \<and> filter is_actuation (tick_calls bench_platform (tilt ACC_LEFT) (demo_state MICROBIT_SPEED_CTRL HARD))
     = [motor_run_microbit ACC_LEFT, servo_set_position 10, solenoid_run_button 1]"
  using impossible_inverts_control [of "demo_state SLIDER_POS_CTRL IMPOSSIBLE" bench_platform "tilt ACC_LEFT"]
    impossible_inverts_control [of "demo_state SLIDER_POS_CTRL EXTREME" bench_platform "tilt ACC_LEFT"]
    impossible_inverts_control [of "demo_state JOYSTICK_SPEED_CTRL IMPOSSIBLE" bench_platform "tilt ACC_LEFT"]
    impossible_inverts_control [of "demo_state JOYSTICK_SPEED_CTRL HARD" bench_platform "tilt ACC_LEFT"]
    impossible_inverts_control [of "demo_state MICROBIT_SPEED_CTRL IMPOSSIBLE" bench_platform "tilt ACC_LEFT"]
    impossible_inverts_control [of "demo_state MICROBIT_SPEED_CTRL HARD" bench_platform "tilt ACC_LEFT"]
  by (simp add: demo_state_sel demo_input_sel tilt_sel bench_platform_sel)

text \<open>
  C7: a tick sends a message exactly when the failure detection of that tick
  found the level below the threshold with the flag clear, which is exactly
  when the flag goes from clear to set; the message has the identifier
  \<open>GAME_LIVES_LEFT_ID\<close>, length 1 and the low byte of the decremented
  \<open>lives_left\<close> as payload. No message is sent when the flag was already set, nor
  when the level is at or above the threshold.
\<close>

theorem notification_iff_failure:
  "filter is_can_send (tick_calls p i s) =
     (if qualifying_failure i s
      then [can_send \<lparr>id_tag = GAME_LIVES_LEFT_ID p, data_length = 1,
                      data = ucast (lives_left (game_run p i s))\<rparr> 0]
      else [])
   \<and> (qualifying_failure i s \<longleftrightarrow> counting_flag s = 0 \<and> counting_flag (game_run p i s) \<noteq> 0)
   \<and> (qualifying_failure i s \<longrightarrow> lives_left (game_run p i s) = lives_left s - 1)
   \<and> (counting_flag s \<noteq> 0 \<longrightarrow> filter is_can_send (tick_calls p i s) = [])
   \<and> (uint (ir_sample i) \<ge> IR_TRESHOLD \<longrightarrow> filter is_can_send (tick_calls p i s) = [])"
proof -
  have sw: "filter is_can_send (switch_calls p i s) = []"
    by (simp add: switch_calls_eq is_can_send_def split: CONTROLLER_SEL.split)
  have 1: "filter is_can_send (tick_calls p i s) =
     (if qualifying_failure i s
      then [can_send \<lparr>id_tag = GAME_LIVES_LEFT_ID p, data_length = 1,
                      data = ucast (lives_left (game_run p i s))\<rparr> 0]
      else [])"
    by (simp add: tick_calls_eq sw game_run_lives is_can_send_def)
  have 2: "qualifying_failure i s \<longleftrightarrow> counting_flag s = 0 \<and> counting_flag (game_run p i s) \<noteq> 0"
    by (auto simp: game_run_flag qualifying_failure_def)
  have 3: "qualifying_failure i s \<longrightarrow> lives_left (game_run p i s) = lives_left s - 1"
    by (simp add: game_run_lives)
  have 4: "counting_flag s \<noteq> 0 \<longrightarrow> filter is_can_send (tick_calls p i s) = []"
    by (simp add: 1 qualifying_failure_def)
  have 5: "uint (ir_sample i) \<ge> IR_TRESHOLD \<longrightarrow> filter is_can_send (tick_calls p i s) = []"
    by (simp add: 1 qualifying_failure_def)
  from 1 2 3 4 5 show ?thesis
    by blast
qed

theorem notification_iff_failure_witness:
  "qualifying_failure (sample 500) (demo_state SLIDER_POS_CTRL HARD)
   \<and> filter is_can_send (tick_calls bench_platform (sample 500) (demo_state SLIDER_POS_CTRL HARD))
       = [can_send \<lparr>id_tag = 3, data_length = 1, data = 2\<rparr> 0]
   \<and> counting_flag (game_run bench_platform (sample 500) (demo_state SLIDER_POS_CTRL HARD)) \<noteq> 0
   \<and> filter is_can_send
        (tick_calls bench_platform (sample 500)
           (game_run bench_platform (sample 500) (demo_state SLIDER_POS_CTRL HARD))) = []
   \<and> IR_TRESHOLD \<le> uint (ir_sample (sample 1000))
   \<and> filter is_can_send (tick_calls bench_platform (sample 1000) (demo_state SLIDER_POS_CTRL HARD)) = []"
proof -
  let ?s = "demo_state SLIDER_POS_CTRL HARD"
  let ?t = "game_run bench_platform (sample 500) ?s"
  have q: "qualifying_failure (sample 500) ?s"
    by (simp add: qualifying_failure_def sample_sel demo_state_sel IR_TRESHOLD_def)
  have a: "IR_TRESHOLD \<le> uint (ir_sample (sample 1000))"
    by (simp add: sample_sel IR_TRESHOLD_def)
  from notification_iff_failure [of bench_platform "sample 500" ?s] q
  have f1: "filter is_can_send (tick_calls bench_platform (sample 500) ?s) =
      [can_send \<lparr>id_tag = GAME_LIVES_LEFT_ID bench_platform, data_length = 1,
                 data = ucast (lives_left ?t)\<rparr> 0]"
    and f2: "counting_flag ?t \<noteq> 0"
    and f3: "lives_left ?t = lives_left ?s - 1"
    by simp_all
  from notification_iff_failure [of bench_platform "sample 500" ?t] f2
  have f4: "filter is_can_send (tick_calls bench_platform (sample 500) ?t) = []"
    by blast
  from notification_iff_failure [of bench_platform "sample 1000" ?s] a
  have f5: "filter is_can_send (tick_calls bench_platform (sample 1000) ?s) = []"
    by blast
  have f6: "filter is_can_send (tick_calls bench_platform (sample 500) ?s) =
      [can_send \<lparr>id_tag = 3, data_length = 1, data = 2\<rparr> 0]"
    by (simp add: f1 f3 demo_state_sel bench_platform_sel)
  from q f6 f2 f4 a f5 show ?thesis
    by blast
qed

text \<open>
  C9: \<open>lives_left\<close> has no floor. A failure detected while \<open>lives_left\<close> is 0 wraps
  it to \<open>2 ^ 32 - 1\<close>, and the message of that tick carries the low byte \<open>0xFF\<close>
  of the wrapped value; this holds in every state with \<open>lives_left = 0\<close> and the
  flag clear, so nothing in the tick guards against it.
\<close>

theorem lives_wrap_below_zero:
  "lives_left s = 0 \<and> counting_flag s = 0 \<and> uint (ir_sample i) < IR_TRESHOLD \<longrightarrow>
     lives_left (game_run p i s) = 0xFFFFFFFF
     \<and> unat (lives_left (game_run p i s)) = 2 ^ 32 - 1
     \<and> filter is_can_send (tick_calls p i s) =
         [can_send \<lparr>id_tag = GAME_LIVES_LEFT_ID p, data_length = 1, data = 0xFF\<rparr> 0]"
proof
  assume h: "lives_left s = 0 \<and> counting_flag s = 0 \<and> uint (ir_sample i) < IR_TRESHOLD"
  then have q: "qualifying_failure i s"
    by (simp add: qualifying_failure_def)
  have sw: "filter is_can_send (switch_calls p i s) = []"
    by (simp add: switch_calls_eq is_can_send_def split: CONTROLLER_SEL.split)
  have l: "lives_left (game_run p i s) = 0xFFFFFFFF"
    using h q by (simp add: game_run_lives)
  have u: "unat (lives_left (game_run p i s)) = 2 ^ 32 - 1"
    by (simp add: l)
  have c: "filter is_can_send (tick_calls p i s) =
         [can_send \<lparr>id_tag = GAME_LIVES_LEFT_ID p, data_length = 1, data = 0xFF\<rparr> 0]"
    using h q by (simp add: tick_calls_eq sw is_can_send_def ucast_minus_one)
  from l u c show "lives_left (game_run p i s) = 0xFFFFFFFF
     \<and> unat (lives_left (game_run p i s)) = 2 ^ 32 - 1
     \<and> filter is_can_send (tick_calls p i s) =
         [can_send \<lparr>id_tag = GAME_LIVES_LEFT_ID p, data_length = 1, data = 0xFF\<rparr> 0]"
    by blast
qed

theorem lives_wrap_below_zero_witness:
  "lives_left (started\<lparr>lives_left := 0\<rparr>) = 0 \<and> counting_flag (started\<lparr>lives_left := 0\<rparr>) = 0
   \<and> uint (ir_sample (sample 500)) < IR_TRESHOLD
   \<and> unat (lives_left (game_run bench_platform (sample 500) (started\<lparr>lives_left := 0\<rparr>))) = 4294967295
   \<and> filter is_can_send (tick_calls bench_platform (sample 500) (started\<lparr>lives_left := 0\<rparr>)) =
         [can_send \<lparr>id_tag = 3, data_length = 1, data = 255\<rparr> 0]"
proof -
  have h: "lives_left (started\<lparr>lives_left := 0\<rparr>) = 0 \<and> counting_flag (started\<lparr>lives_left := 0\<rparr>) = 0
   \<and> uint (ir_sample (sample 500)) < IR_TRESHOLD"
    by (simp add: started_eval sample_sel IR_TRESHOLD_def)
  from lives_wrap_below_zero [of "started\<lparr>lives_left := 0\<rparr>" "sample 500" bench_platform] h
  show ?thesis
    by (simp add: bench_platform_sel)
qed

subsection \<open>Configuration, initialisation and resets\<close>

text \<open>
  C6: \<open>game_set_difficulty\<close> itself calls the PID controller and the motor driver
  with the constants of the selected difficulty, \<open>HARD\<close>: gains 35, 20, 1 and
  speed \<open>0x4FF\<close>; \<open>EXTREME\<close>: 20, 10, 1 and \<open>0x3FF\<close>; \<open>IMPOSSIBLE\<close>: 40, 25, 1 and
  \<open>0x4FF\<close>, and stores the difficulty; the rest of the state is unchanged.
\<close>

theorem set_difficulty_pushes_table:
  "calls (game_set_difficulty HARD s) =
     calls s @ [pid_controller_set_parameters 35 20 1, motor_set_microbit_speed 0x4FF]
   \<and> calls (game_set_difficulty EXTREME s) =
     calls s @ [pid_controller_set_parameters 20 10 1, motor_set_microbit_speed 0x3FF]
   \<and> calls (game_set_difficulty IMPOSSIBLE s) =
     calls s @ [pid_controller_set_parameters 40 25 1, motor_set_microbit_speed 0x4FF]
   \<and> difficulty_select (game_set_difficulty d s) = d
   \<and> score (game_set_difficulty d s) = score s
   \<and> lives_left (game_set_difficulty d s) = lives_left s
   \<and> counting_flag (game_set_difficulty d s) = counting_flag s
   \<and> controller_select (game_set_difficulty d s) = controller_select s
   \<and> user_data (game_set_difficulty d s) = user_data s"
  by (simp add: game_set_difficulty_def do_call_def Let_def
      K_P_HARD_def K_I_HARD_def K_D_HARD_def K_P_EXTREME_def K_I_EXTREME_def K_D_EXTREME_def
      K_P_IMPOSSIBLE_def K_I_IMPOSSIBLE_def K_D_IMPOSSIBLE_def
      MB_SPEED_HARD_def MB_SPEED_EXTREME_def MB_SPEED_IMPOSSIBLE_def split: DIFFICULTY.split)

text \<open>
  C8: \<open>game_reset_score\<close> sets the score to 0 whatever it was, and
  \<open>game_reset_lives_left\<close> sets \<open>lives_left\<close> to \<open>INITIAL_LIVES\<close>, which is the
  count \<open>game_init\<close> establishes (\<open>NUMBER_OF_LIVES\<close>).
\<close>

theorem resets_restore_initial_values:
  "score (game_reset_score s) = 0
   \<and> lives_left (game_reset_score s) = lives_left s
   \<and> lives_left (game_reset_lives_left s) = INITIAL_LIVES
   \<and> lives_left (game_init p s') = NUMBER_OF_LIVES
   \<and> lives_left (game_reset_lives_left s) = lives_left (game_init p s')
   \<and> score (game_reset_lives_left s) = score s
   \<and> score (game_init p s') = 0"
  by (simp add: game_reset_score_def game_reset_lives_left_def game_init_def game_timer_init_def
      do_call_def Let_def INITIAL_LIVES_def NUMBER_OF_LIVES_def)

text \<open>
  C10: \<open>game_init\<close> resets the score and \<open>lives_left\<close> and leaves the flag as it
  was. When the flag was set before, it stays set through every following tick
  whose level is not strictly above the threshold, and none of these ticks
  changes the fresh \<open>lives_left\<close>; once a tick strictly above the threshold has
  been seen, the next tick below it costs a life.
\<close>

theorem init_keeps_debounce_flag:
  "counting_flag (game_init p s) = counting_flag s
   \<and> score (game_init p s) = 0
   \<and> lives_left (game_init p s) = NUMBER_OF_LIVES
   \<and> (counting_flag s \<noteq> 0 \<and> list_all (\<lambda>i. \<not> above i) ins \<longrightarrow>
        lives_left (game_ticks p ins (game_init p s)) = NUMBER_OF_LIVES
        \<and> lives_decrements p ins (game_init p s) = 0
        \<and> counting_flag (game_ticks p ins (game_init p s)) = counting_flag s)
   \<and> (counting_flag s \<noteq> 0 \<and> list_all (\<lambda>i. \<not> above i) ins \<and> above a \<and> below b \<longrightarrow>
        lives_left (game_ticks p (ins @ [a, b]) (game_init p s)) = NUMBER_OF_LIVES - 1)"
proof -
  have stay: "lives_left (game_ticks p ins (game_init p s)) = NUMBER_OF_LIVES
        \<and> lives_decrements p ins (game_init p s) = 0
        \<and> counting_flag (game_ticks p ins (game_init p s)) = counting_flag s"
    if "counting_flag s \<noteq> 0" "list_all (\<lambda>i. \<not> above i) ins"
  proof -
    have "counting_flag (game_init p s) \<noteq> 0"
      using that(1) by (simp add: game_init_sel)
    from latched_stays [OF that(2) this, of p] show ?thesis
      by (simp add: game_init_sel)
  qed
  have rearm: "lives_left (game_ticks p (ins @ [a, b]) (game_init p s)) = NUMBER_OF_LIVES - 1"
    if "counting_flag s \<noteq> 0" "list_all (\<lambda>i. \<not> above i) ins" "above a" "below b"
  proof -
    have r: "rearmed_run [a, b]"
      using that(3,4) by (simp add: rearmed_run_def)
    from rearmed_run_once [OF r, of p "game_ticks p ins (game_init p s)"] stay [OF that(1,2)]
    show ?thesis
      by (simp add: game_ticks_append del: game_ticks.simps)
  qed
  from stay rearm show ?thesis
    by (simp add: game_init_sel)
qed

theorem init_keeps_debounce_flag_witness:
  "counting_flag latched_state \<noteq> 0
   \<and> list_all (\<lambda>i. \<not> above i) [sample 500, sample 1000]
   \<and> above (sample 2000) \<and> below (sample 500)
   \<and> counting_flag (game_init bench_platform latched_state) = 1
   \<and> lives_left (game_ticks bench_platform [sample 500, sample 1000]
                   (game_init bench_platform latched_state)) = 3
   \<and> lives_left (game_ticks bench_platform ([sample 500, sample 1000] @ [sample 2000, sample 500])
                   (game_init bench_platform latched_state)) = 2"
proof -
  have h1: "counting_flag latched_state \<noteq> 0"
    by (simp add: latched_state_sel)
  have h2: "list_all (\<lambda>i. \<not> above i) [sample 500, sample 1000]"
    by (simp add: sample_simps)
  have h3: "above (sample 2000)" "below (sample 500)"
    by (simp_all add: sample_simps)
  from init_keeps_debounce_flag [of bench_platform latched_state "[sample 500, sample 1000]"
      "sample 2000" "sample 500"] h1 h2 h3
  show ?thesis
    by (simp add: latched_state_sel NUMBER_OF_LIVES_def del: game_ticks.simps)
qed

end
